theory Spec2Isabelle
  imports Complex_Main
begin

section \<open>Python values, errors and the parts of the tensor framework the notebook calls\<close>

text \<open>
  The notebook \<^verbatim>\<open>POS_RNN-Copy1.ipynb\<close> is Python on top of a tensor framework.
  A raised exception is a value \<open>Inl e\<close> of a sum type; a normal return is \<open>Inr v\<close>.
\<close>

datatype error =
  NameError | TypeError | ValueError | RuntimeError | IndexError | ZeroDivisionError | OverflowError

text \<open>
  Python is dynamically typed: \<^verbatim>\<open>forward\<close> hands a whole list to \<^verbatim>\<open>step\<close> where a
  tensor is announced, and the placeholders return \<^verbatim>\<open>None\<close> where a tuple is announced.
  The values that occur are therefore one type. Tensors of floating-point numbers are
  kept abstract (the type parameter \<open>'t\<close>).
\<close>

datatype 't pyval =
    PyNone
  | NotImplemented
  | PyInt int
  | PyStr string
  | Tensor 't
  | PyList "'t pyval list"
  | PyTuple "'t pyval list"

type_synonym 't callable = "'t pyval \<Rightarrow> error + 't pyval"

text \<open>The module-level names of the notebook session: a dictionary from names to values.\<close>

type_synonym 't globals = "string \<rightharpoonup> 't pyval"

text \<open>
  The framework is not part of the repository, so what the notebook calls of it is a
  parameter: the addition of two values (\<^verbatim>\<open>+\<close>), and the constructors
  \<^verbatim>\<open>torch.nn.Linear(in_features, out_features, bias)\<close> and
  \<^verbatim>\<open>torch.nn.RNN(input_size, hidden_size, nonlinearity)\<close>. A constructor draws its
  initial weights from the framework's random generator, whose state \<open>'r\<close> it takes and
  returns; the module it builds is a callable (for the RNN, one that returns the pair of
  the hidden states and the last hidden state).
\<close>

record ('t, 'r) torch =
  tensor_add :: "'t pyval \<Rightarrow> 't pyval \<Rightarrow> error + 't pyval"
  nn_Linear :: "int \<Rightarrow> int \<Rightarrow> bool \<Rightarrow> 'r \<Rightarrow> (error + 't callable) \<times> 'r"
  nn_RNN :: "int \<Rightarrow> int \<Rightarrow> 't pyval \<Rightarrow> 'r
               \<Rightarrow> (error + ('t pyval \<Rightarrow> error + 't pyval \<times> 't pyval)) \<times> 'r"

section \<open>Assignment 2.0: the class mySRN\<close>

record 't mySRN =
  hidden_activation :: "'t callable"
  output_activation :: "'t callable"
  device :: string
  x_to_h :: "'t callable"
  h_to_h :: "'t callable"
  h_to_y :: "'t callable"

text \<open>
  \<^verbatim>\<open>__init__\<close> stores the two activations and the device, then builds the three linear
  layers in the order of the source; \<^verbatim>\<open>x_to_h\<close> has no bias.
\<close>

definition mySRN_init ::
  "('t, 'r) torch \<Rightarrow> int \<Rightarrow> int \<Rightarrow> int \<Rightarrow> 't callable \<Rightarrow> 't callable \<Rightarrow> string \<Rightarrow> 'r
     \<Rightarrow> (error + 't mySRN) \<times> 'r" where
  "mySRN_init fw input_dim hidden_dim output_dim hidden_act output_act dev r =
     (case nn_Linear fw input_dim hidden_dim False r of
        (Inl e, r1) \<Rightarrow> (Inl e, r1)
      | (Inr l1, r1) \<Rightarrow>
          (case nn_Linear fw hidden_dim hidden_dim True r1 of
             (Inl e, r2) \<Rightarrow> (Inl e, r2)
           | (Inr l2, r2) \<Rightarrow>
               (case nn_Linear fw hidden_dim output_dim True r2 of
                  (Inl e, r3) \<Rightarrow> (Inl e, r3)
                | (Inr l3, r3) \<Rightarrow>
                    (Inr \<lparr> hidden_activation = hidden_act, output_activation = output_act,
                           device = dev, x_to_h = l1, h_to_h = l2, h_to_y = l3 \<rparr>, r3))))"

text \<open>
  \<^verbatim>\<open>step(self, x, h)\<close>. The first line of the body reads the name \<^verbatim>\<open>X\<close>, which is not
  the parameter \<^verbatim>\<open>x\<close> and not a local: Python looks it up among the module-level names
  and raises \<^verbatim>\<open>NameError\<close> when it is unbound. The arguments are evaluated left to
  right, so the lookup of \<^verbatim>\<open>X\<close> and the call of \<^verbatim>\<open>x_to_h\<close> come before \<^verbatim>\<open>h_to_h\<close>.
\<close>

definition step ::
  "('t, 'r) torch \<Rightarrow> 't globals \<Rightarrow> 't mySRN \<Rightarrow> 't pyval \<Rightarrow> 't pyval
     \<Rightarrow> error + ('t pyval \<times> 't pyval)" where
  "step fw env self x h =
     (case env ''X'' of
        None \<Rightarrow> Inl NameError
      | Some X \<Rightarrow>
          (case x_to_h self X of Inl e \<Rightarrow> Inl e | Inr a \<Rightarrow>
          (case h_to_h self h of Inl e \<Rightarrow> Inl e | Inr b \<Rightarrow>
          (case tensor_add fw a b of Inl e \<Rightarrow> Inl e | Inr s \<Rightarrow>
          (case hidden_activation self s of Inl e \<Rightarrow> Inl e | Inr ht \<Rightarrow>
          (case h_to_y self ht of Inl e \<Rightarrow> Inl e | Inr z \<Rightarrow>
          (case output_activation self z of Inl e \<Rightarrow> Inl e | Inr yt \<Rightarrow>
             Inr (ht, yt))))))))"

text \<open>
  \<^verbatim>\<open>forward(self, X, h)\<close>. The loop tests \<^verbatim>\<open>len(X) != 0\<close> on the parameter \<^verbatim>\<open>X\<close>,
  calls \<^verbatim>\<open>step\<close> with the whole list and the unchanged \<^verbatim>\<open>h\<close>, rebinds \<^verbatim>\<open>ht\<close> and
  \<^verbatim>\<open>yt\<close> and prints \<^verbatim>\<open>ht\<close>. Printing appends to the standard output, which is
  threaded through as a list of the printed values. The loop may run forever, so it is a
  partial function: \<open>None\<close> is "never returns", \<open>Some (Inl e, out)\<close> is an exception
  and \<open>Some (Inr v, out)\<close> a normal return.
\<close>

partial_function (option) forward_loop ::
  "('t, 'r) torch \<Rightarrow> 't globals \<Rightarrow> 't mySRN \<Rightarrow> 't pyval list \<Rightarrow> 't pyval
     \<Rightarrow> 't pyval \<Rightarrow> 't pyval \<Rightarrow> 't pyval list
     \<Rightarrow> ((error + 't pyval) \<times> 't pyval list) option" where
  "forward_loop fw env self X h ht yt out =
     (if length X \<noteq> 0 then
        (case step fw env self (PyList X) h of
           Inl e \<Rightarrow> Some (Inl e, out)
         | Inr (ht', yt') \<Rightarrow> forward_loop fw env self X h ht' yt' (out @ [ht']))
      else Some (Inr yt, out))"

definition forward ::
  "('t, 'r) torch \<Rightarrow> 't globals \<Rightarrow> 't mySRN \<Rightarrow> 't pyval list \<Rightarrow> 't pyval \<Rightarrow> 't pyval list
     \<Rightarrow> ((error + 't pyval) \<times> 't pyval list) option" where
  "forward fw env self X h out = forward_loop fw env self X h (PyList []) (PyList []) out"

section \<open>Assignment 2.1: the class fastSRN\<close>

text \<open>
  The output activation is announced as a callable on tensors. It is a plain function
  (\<^verbatim>\<open>torch.tanh\<close>, a lambda) or a \<^verbatim>\<open>torch.nn.Module\<close>: a module carries its own
  named, trainable parameters, and its result depends on their current values (as
  \<^verbatim>\<open>torch.nn.PReLU\<close> on its \<^verbatim>\<open>weight\<close>).
\<close>

datatype 't activation =
    Function "'t callable"
  | Module "(string \<times> 't) list" "(string \<times> 't) list \<Rightarrow> 't callable"

definition call :: "'t activation \<Rightarrow> 't callable" where
  "call a v = (case a of Function f \<Rightarrow> f v | Module ps fwd \<Rightarrow> fwd ps v)"

text \<open>
  \<^verbatim>\<open>super().__init__()\<close> gives the module an empty registry of parameters of its own
  (the field \<open>parameters\<close>, the framework's \<^verbatim>\<open>_parameters\<close>); the rest of
  \<^verbatim>\<open>__init__\<close> assigns six attributes and builds no layer. The three dimensions are
  integers and the hidden activation and the device are announced as strings; the
  output activation is stored as it is passed in.
\<close>

record 't fastSRN =
  parameters :: "(string \<times> 't) list"
  input_size :: int
  hidden_size :: int
  output_size :: int
  hidden_activation :: "'t pyval"
  output_activation :: "'t activation"
  device :: string

definition fastSRN_init ::
  "int \<Rightarrow> int \<Rightarrow> int \<Rightarrow> 't pyval \<Rightarrow> 't activation \<Rightarrow> string \<Rightarrow> 't fastSRN" where
  "fastSRN_init input_dim hidden_dim output_dim hidden_act output_act dev =
     \<lparr> parameters = [], input_size = input_dim, hidden_size = hidden_dim,
       output_size = output_dim, hidden_activation = hidden_act,
       output_activation = output_act, device = dev \<rparr>"


text \<open>
  \<^verbatim>\<open>forward(self, X, h=None)\<close> builds an RNN and a linear layer, runs the RNN on \<^verbatim>\<open>X\<close>
  alone (the argument \<^verbatim>\<open>h\<close> is not passed on), and applies the linear layer and the
  output activation to the hidden states.
\<close>

definition fastSRN_forward ::
  "('t, 'r) torch \<Rightarrow> 't fastSRN \<Rightarrow> 't pyval \<Rightarrow> 't pyval \<Rightarrow> 'r \<Rightarrow> (error + 't pyval) \<times> 'r" where
  "fastSRN_forward fw self X h r =
     (case nn_RNN fw (input_size self) (hidden_size self) (hidden_activation self) r of
        (Inl e, r1) \<Rightarrow> (Inl e, r1)
      | (Inr myrnn, r1) \<Rightarrow>
          (case nn_Linear fw (hidden_size self) (output_size self) True r1 of
             (Inl e, r2) \<Rightarrow> (Inl e, r2)
           | (Inr h_to_y', r2) \<Rightarrow>
               (case myrnn X of Inl e \<Rightarrow> (Inl e, r2) | Inr (ht, h_n) \<Rightarrow>
               (case h_to_y' ht of Inl e \<Rightarrow> (Inl e, r2) | Inr z \<Rightarrow>
               (case call (output_activation self) z of Inl e \<Rightarrow> (Inl e, r2) | Inr yt \<Rightarrow>
                  (Inr yt, r2))))))"

section \<open>Assignment 2.4: the placeholders of the data pipeline\<close>

text \<open>
  The body of each placeholder is the expression statement \<^verbatim>\<open>NotImplemented\<close>: the
  constant is evaluated, its value is dropped, and the function falls off its end, which
  returns \<^verbatim>\<open>None\<close>. The program state \<open>'s\<close> (objects, module-level names, output) is
  passed in and returned.
\<close>

definition placeholder_body :: "'s \<Rightarrow> 't pyval \<times> 's" where
  "placeholder_body s = (let dropped = (NotImplemented :: 't pyval) in (PyNone, s))"

definition UnevenLengthDataset_init ::
  "'t pyval \<Rightarrow> 't pyval \<Rightarrow> 't pyval \<Rightarrow> 's \<Rightarrow> 't pyval \<times> 's" where
  "UnevenLengthDataset_init self X Y s = placeholder_body s"

definition UnevenLengthDataset_len :: "'t pyval \<Rightarrow> 's \<Rightarrow> 't pyval \<times> 's" where
  "UnevenLengthDataset_len self s = placeholder_body s"

definition UnevenLengthDataset_getitem :: "'t pyval \<Rightarrow> 't pyval \<Rightarrow> 's \<Rightarrow> 't pyval \<times> 's" where
  "UnevenLengthDataset_getitem self idx s = placeholder_body s"

definition pad_batch :: "'t pyval \<Rightarrow> 's \<Rightarrow> 't pyval \<times> 's" where
  "pad_batch batch s = placeholder_body s"

section \<open>Assignment 2.5: accuracy and the training placeholders\<close>

text \<open>
  A 2-dimensional tensor of integers: its shape and its elements in row-major order, the
  element at row \<open>r\<close> and column \<open>c\<close> being \<open>data ! (r * shape1 + c)\<close>.
\<close>

record tensor2 =
  shape0 :: nat
  shape1 :: nat
  data :: "int list"

text \<open>
  A tensor has as many elements as its shape says, and the elements of a
  \<^verbatim>\<open>LongTensor\<close> are 64-bit signed integers.
\<close>

definition int64 :: "int \<Rightarrow> bool" where
  "int64 x = (- (2 ^ 63) \<le> x \<and> x < 2 ^ 63)"



text \<open>
  The framework operations \<^verbatim>\<open>accuracy\<close> uses, on the row-major elements:
  \<^verbatim>\<open>torch.ones(size)\<close>, the elementwise comparisons \<^verbatim>\<open>a != b\<close> and \<^verbatim>\<open>a == k\<close>,
  the masked assignment \<^verbatim>\<open>a[mask] = v\<close> and the masked selection \<^verbatim>\<open>a[mask]\<close>.
  The tensor of ones holds 32-bit floating-point numbers. Its entries are only ever
  \<open>0.0\<close> and \<open>1.0\<close>, and each is written as the integer it equals; what is floating
  point about the tensor is its sum, below.
\<close>

definition ones :: "nat \<Rightarrow> nat \<Rightarrow> int list" where
  "ones n m = replicate (n * m) 1"

definition ne_mask :: "int list \<Rightarrow> int list \<Rightarrow> bool list" where
  "ne_mask xs ys = map2 (\<lambda>x y. x \<noteq> y) xs ys"

definition eq_scalar_mask :: "int list \<Rightarrow> int \<Rightarrow> bool list" where
  "eq_scalar_mask xs k = map (\<lambda>x. x = k) xs"

definition masked_assign :: "int list \<Rightarrow> bool list \<Rightarrow> int \<Rightarrow> int list" where
  "masked_assign xs msk v = map2 (\<lambda>x m. if m then v else x) xs msk"

definition masked_select :: "int list \<Rightarrow> bool list \<Rightarrow> int list" where
  "masked_select xs msk = map fst (filter snd (zip xs msk))"

definition broadcastable :: "nat \<Rightarrow> nat \<Rightarrow> bool" where
  "broadcastable n m = (n = m \<or> n = 1 \<or> m = 1)"

text \<open>
  \<^verbatim>\<open>correct_words.sum()\<close> adds the entries in 32-bit floating point. A float32 has a
  significand of 24 bits: the integers it holds are those up to \<open>2 ^ 24\<close> in magnitude
  and, above, only the multiples of a power of two (\<open>f32_ulp\<close>, the spacing at a
  magnitude). The entries summed here are zeros and ones: as long as their exact sum is
  at most \<open>2 ^ 24\<close>, every partial sum is held exactly, whatever the order of the
  additions. Above that the result depends on an order the framework does not fix; the
  model takes the exact sum rounded to the nearest float32, ties to the even
  significand.
\<close>

fun f32_ulp :: "nat \<Rightarrow> nat" where
  "f32_ulp m = (if m < 2 ^ 24 then 1 else 2 * f32_ulp (m div 2))"

declare f32_ulp.simps [simp del]

definition f32_round :: "int \<Rightarrow> int" where
  "f32_round x =
     (let q = int (f32_ulp (nat \<bar>x\<bar>)); d = \<bar>x\<bar> div q; r = \<bar>x\<bar> mod q
      in sgn x * (if 2 * r < q \<or> (2 * r = q \<and> even d) then d * q else (d + 1) * q))"

definition f32_sum :: "int list \<Rightarrow> int" where
  "f32_sum xs = f32_round (sum_list xs)"

text \<open>
  \<^verbatim>\<open>accuracy(predictions, truth, ignore_idx)\<close>, statement by statement. The framework
  raises
  \<^item> at \<^verbatim>\<open>predictions != truth\<close>, when the two shapes cannot be broadcast;
  \<^item> at the first masked assignment, when the broadcast mask has not the shape of
    \<^verbatim>\<open>correct_words\<close>, which is the shape of \<^verbatim>\<open>predictions\<close>;
  \<^item> at \<^verbatim>\<open>truth == ignore_idx\<close>, when \<^verbatim>\<open>ignore_idx\<close> is no 64-bit signed integer and
    so cannot be compared with the elements of \<^verbatim>\<open>truth\<close>;
  \<^item> at the second masked assignment, when \<^verbatim>\<open>truth\<close> has not the shape of
    \<^verbatim>\<open>correct_words\<close>.
  The first component of the result is a Python integer. The second is the
  floating-point sum minus an integer, a subtraction in double precision, which is
  exact on all counts below \<open>2 ^ 53\<close>.
\<close>

definition accuracy :: "tensor2 \<Rightarrow> tensor2 \<Rightarrow> int \<Rightarrow> error + (int \<times> int)" where
  "accuracy predictions truth ignore_idx =
     (if \<not> (broadcastable (shape0 predictions) (shape0 truth)
              \<and> broadcastable (shape1 predictions) (shape1 truth)) then Inl RuntimeError
      else if \<not> ((shape0 predictions = shape0 truth \<or> shape0 truth = 1)
                  \<and> (shape1 predictions = shape1 truth \<or> shape1 truth = 1))
      then Inl IndexError
      else if \<not> int64 ignore_idx then Inl OverflowError
      else if (shape0 predictions, shape1 predictions) \<noteq> (shape0 truth, shape1 truth)
      then Inl IndexError
      else
        (let correct_words = ones (shape0 predictions) (shape1 predictions);
             correct_words = masked_assign correct_words
                               (ne_mask (data predictions) (data truth)) 0;
             correct_words = masked_assign correct_words
                               (eq_scalar_mask (data truth) ignore_idx) 1;
             num_correct_words = f32_sum correct_words;
             num_masked_words =
               int (length (masked_select (data truth) (eq_scalar_mask (data truth) ignore_idx)))
         in Inr (int (shape0 predictions) * int (shape1 predictions) - num_masked_words,
                 num_correct_words - num_masked_words)))"

text \<open>
  \<^verbatim>\<open>measure_accuracy(network, dataloader, device)\<close>. The dataloader is the list of its
  batches. The network and the framework methods \<^verbatim>\<open>.to(device)\<close> and
  \<^verbatim>\<open>.argmax(dim=-1)\<close> are parameters; each may raise. The loop body runs them in the
  order of the source and adds the two counts to the running sums.
\<close>

record ('x, 'p) batch_ops =
  x_to :: "'x \<Rightarrow> string \<Rightarrow> error + 'x"
  y_to :: "tensor2 \<Rightarrow> string \<Rightarrow> error + tensor2"
  argmax_last :: "'p \<Rightarrow> error + tensor2"

fun measure_loop ::
  "('x, 'p) batch_ops \<Rightarrow> ('x \<Rightarrow> error + 'p) \<Rightarrow> string \<Rightarrow> ('x \<times> tensor2) list
     \<Rightarrow> int \<Rightarrow> int \<Rightarrow> error + (int \<times> int)" where
  "measure_loop ops network dev [] correct total' = Inr (correct, total')"
| "measure_loop ops network dev ((x_batch, y_batch) # rest) correct total' =
     (case x_to ops x_batch dev of Inl e \<Rightarrow> Inl e | Inr xd \<Rightarrow>
     (case network xd of Inl e \<Rightarrow> Inl e | Inr pred \<Rightarrow>
     (case argmax_last ops pred of Inl e \<Rightarrow> Inl e | Inr am \<Rightarrow>
     (case y_to ops y_batch dev of Inl e \<Rightarrow> Inl e | Inr yd \<Rightarrow>
     (case accuracy am yd 0 of Inl e \<Rightarrow> Inl e | Inr (local_total, local_correct) \<Rightarrow>
        measure_loop ops network dev rest (correct + local_correct) (total' + local_total))))))"

text \<open>
  The last line divides the two sums; Python raises \<^verbatim>\<open>ZeroDivisionError\<close> when the
  divisor is zero. The quotient is a floating-point number in Python and the exact
  fraction here.
\<close>

definition measure_accuracy ::
  "('x, 'p) batch_ops \<Rightarrow> ('x \<Rightarrow> error + 'p) \<Rightarrow> ('x \<times> tensor2) list \<Rightarrow> string
     \<Rightarrow> error + rat" where
  "measure_accuracy ops network dataloader dev =
     (case measure_loop ops network dev dataloader 0 0 of
        Inl e \<Rightarrow> Inl e
      | Inr (correct, total') \<Rightarrow>
          if total' = 0 then Inl ZeroDivisionError
          else Inr (of_int correct / of_int total'))"

definition train_batch ::
  "'t pyval \<Rightarrow> 't pyval \<Rightarrow> 't pyval \<Rightarrow> 't pyval \<Rightarrow> 't pyval \<Rightarrow> 's \<Rightarrow> 't pyval \<times> 's" where
  "train_batch network X_batch Y_batch loss_fn optimizer s = placeholder_body s"

definition train_epoch ::
  "'t pyval \<Rightarrow> 't pyval \<Rightarrow> 't pyval \<Rightarrow> 't pyval \<Rightarrow> 't pyval \<Rightarrow> 's \<Rightarrow> 't pyval \<times> 's" where
  "train_epoch network dataloader loss_fn optimizer dev s = placeholder_body s"

definition eval_batch ::
  "'t pyval \<Rightarrow> 't pyval \<Rightarrow> 't pyval \<Rightarrow> 't pyval \<Rightarrow> 's \<Rightarrow> 't pyval \<times> 's" where
  "eval_batch network X_batch Y_batch loss_fn s = placeholder_body s"

definition eval_epoch ::
  "'t pyval \<Rightarrow> 't pyval \<Rightarrow> 't pyval \<Rightarrow> 't pyval \<Rightarrow> 's \<Rightarrow> 't pyval \<times> 's" where
  "eval_epoch network dataloader loss_fn dev s = placeholder_body s"

section \<open>A small instance of the framework and of the two classes\<close>

text \<open>
  An instance on which the definitions can be run: a tensor is a list of integers, the
  random generator is a counter, and a layer built at counter \<open>r\<close> has the weight
  \<open>r + 1\<close>. Addition is elementwise and needs equal lengths; the RNN runs the
  recurrence \<open>h' = w * x + h\<close> over the entries of its input from \<open>h = 0\<close>, whatever
  the nonlinearity it is built with.
\<close>

definition ex_add :: "int list pyval \<Rightarrow> int list pyval \<Rightarrow> error + int list pyval" where
  "ex_add a b =
     (case (a, b) of
        (Tensor xs, Tensor ys) \<Rightarrow>
          if length xs = length ys then Inr (Tensor (map2 (+) xs ys)) else Inl RuntimeError
      | _ \<Rightarrow> Inl TypeError)"

definition ex_linear :: "int \<Rightarrow> int \<Rightarrow> int list callable" where
  "ex_linear w b v =
     (case v of Tensor xs \<Rightarrow> Inr (Tensor (map (\<lambda>x. w * x + b) xs)) | _ \<Rightarrow> Inl TypeError)"

primrec ex_rnn_run :: "int \<Rightarrow> int \<Rightarrow> int list \<Rightarrow> int list" where
  "ex_rnn_run w h [] = []"
| "ex_rnn_run w h (x # xs) = (w * x + h) # ex_rnn_run w (w * x + h) xs"

definition ex_rnn :: "int \<Rightarrow> int list pyval \<Rightarrow> error + int list pyval \<times> int list pyval" where
  "ex_rnn w v =
     (case v of
        Tensor xs \<Rightarrow> Inr (Tensor (ex_rnn_run w 0 xs), Tensor [last (0 # ex_rnn_run w 0 xs)])
      | _ \<Rightarrow> Inl TypeError)"

definition ex_torch :: "(int list, nat) torch" where
  "ex_torch =
     \<lparr> tensor_add = ex_add,
       nn_Linear = (\<lambda>n m bias r. (Inr (ex_linear (int r + 1) (if bias then 1 else 0)), Suc r)),
       nn_RNN = (\<lambda>n m nonlinearity r.
                   (if nonlinearity = PyStr ''tanh'' \<or> nonlinearity = PyStr ''relu''
                    then Inr (ex_rnn (int r + 1)) else Inl ValueError, Suc r)) \<rparr>"

definition ex_net :: "int list mySRN" where
  "ex_net =
     \<lparr> mySRN.hidden_activation = Inr, mySRN.output_activation = Inr, mySRN.device = ''cpu'',
       x_to_h = ex_linear 1 0, h_to_h = ex_linear 1 0, h_to_y = ex_linear 2 1 \<rparr>"

definition ex_env :: "int list globals" where
  "ex_env = [''X'' \<mapsto> Tensor [7]]"

definition ex_fast :: "int list fastSRN" where
  "ex_fast = fastSRN_init 1 1 1 (PyStr ''tanh'') (Function Inr) ''cpu''"



text \<open>
  The layers of \<open>ex_net\<close> are those \<open>ex_torch\<close> builds at counter 0 and 1 (the RNN with
  weight 1, the output layer with weight 2 and bias 1), so \<open>ex_net\<close> and a first call
  of \<open>ex_fast\<close> have matching weights and activations.
\<close>

definition ex_batch :: "int list pyval" where
  "ex_batch =
     PyList [PyTuple [Tensor [1, 2], Tensor [1]], PyTuple [Tensor [3, 4, 5, 6], Tensor [1, 2]]]"

definition ex_pred :: tensor2 where
  "ex_pred = \<lparr> shape0 = 2, shape1 = 3, data = [1, 2, 3, 0, 4, 4] \<rparr>"

definition ex_truth :: tensor2 where
  "ex_truth = \<lparr> shape0 = 2, shape1 = 3, data = [1, 0, 3, 0, 5, 4] \<rparr>"

definition ex_pred2 :: tensor2 where
  "ex_pred2 = \<lparr> shape0 = 1, shape1 = 4, data = [5, 4, 0, 0] \<rparr>"

definition ex_truth2 :: tensor2 where
  "ex_truth2 = \<lparr> shape0 = 1, shape1 = 4, data = [5, 4, 3, 0] \<rparr>"


text \<open>
  Batch operations in which the device \<^verbatim>\<open>cpu\<close> is the only one there is and the network's
  output is already the tensor of the predicted classes.
\<close>

definition ex_ops :: "(tensor2, tensor2) batch_ops" where
  "ex_ops =
     \<lparr> x_to = (\<lambda>x d. if d = ''cpu'' then Inr x else Inl RuntimeError),
       y_to = (\<lambda>y d. if d = ''cpu'' then Inr y else Inl RuntimeError),
       argmax_last = Inr \<rparr>"

section \<open>Notions used to state the properties\<close>

text \<open>The positions of a 2-dimensional tensor, each once, row by row.\<close>

definition positions :: "tensor2 \<Rightarrow> (nat \<times> nat) list" where
  "positions t = List.product [0..<shape0 t] [0..<shape1 t]"

text \<open>A value is a pair of tensors.\<close>

definition is_tensor_pair :: "'t pyval \<Rightarrow> bool" where
  "is_tensor_pair v = (case v of PyTuple [Tensor X, Tensor Y] \<Rightarrow> True | _ \<Rightarrow> False)"

section \<open>Properties of mySRN\<close>

subsection \<open>Evaluating the instance\<close>

lemma ex_step_bound:
  "step ex_torch ex_env ex_net x (Tensor [0]) = Inr (Tensor [7], Tensor [15])"
  by (simp add: step_def ex_env_def ex_net_def ex_torch_def ex_linear_def ex_add_def)

lemma step_unbound: "step fw Map.empty self x h = Inl NameError"
  by (simp add: step_def)

subsection \<open>The loop of forward\<close>

text \<open>
  Whenever the loop returns anything, either the list was empty or \<^verbatim>\<open>step\<close> raised:
  no iteration changes \<^verbatim>\<open>X\<close>, \<^verbatim>\<open>h\<close> or what \<^verbatim>\<open>step\<close> computes from them.
\<close>

lemma forward_loop_Some:
  assumes "forward_loop fw env self X h ht yt out = Some res"
  shows "X = [] \<or> (\<exists>e. step fw env self (PyList X) h = Inl e)"
proof (rule forward_loop.raw_induct
    [where P = "\<lambda>fw env self X h ht yt out res.
                  X = [] \<or> (\<exists>e. step fw env self (PyList X) h = Inl e)",
     OF _ assms], goal_cases)
  case (1 f fw env self X h ht yt out res)
  show ?case
  proof (cases "X = []")
    case False
    show ?thesis
    proof (cases "step fw env self (PyList X) h")
      case (Inl e)
      then show ?thesis by blast
    next
      case (Inr p)
      obtain ht' yt' where p: "p = (ht', yt')" by (cases p)
      from 1(2) False Inr p have "f fw env self X h ht' yt' (out @ [ht']) = Some res"
        by simp
      from 1(1)[OF this] show ?thesis .
    qed
  qed simp
qed

lemma forward_loop_empty: "forward_loop fw env self [] h ht yt out = Some (Inr yt, out)"
  by (subst forward_loop.simps) simp

lemma forward_loop_nonempty:
  assumes "X \<noteq> []"
  shows "forward_loop fw env self X h ht yt out =
           (case step fw env self (PyList X) h of
              Inl e \<Rightarrow> Some (Inl e, out)
            | Inr p \<Rightarrow> None)"
proof (cases "step fw env self (PyList X) h")
  case (Inl e)
  with assms show ?thesis by (subst forward_loop.simps) simp
next
  case (Inr p)
  have "forward_loop fw env self X h ht yt out = None"
  proof (cases "forward_loop fw env self X h ht yt out")
    case (Some res)
    from forward_loop_Some[OF Some] assms Inr show ?thesis by simp
  qed simp
  with Inr show ?thesis by simp
qed

subsection \<open>The claims about step and forward\<close>

text \<open>
  Claim C1: \<^verbatim>\<open>step(x, h)\<close> returns \<open>(h_t, y_t)\<close> with
  \<open>h_t = hidden_activation(x_to_h(x) + h_to_h(h))\<close> and
  \<open>y_t = output_activation(h_to_y(h_t))\<close>.
  The code computes \<open>h_t\<close> from the module-level \<^verbatim>\<open>X\<close> instead of \<^verbatim>\<open>x\<close>. On the
  instance, with \<^verbatim>\<open>X\<close> bound to the tensor \<open>[7]\<close>, the call with \<open>x = [1]\<close> and
  \<open>h = [0]\<close> returns \<open>([7], [15])\<close>, while the formula of the claim gives the hidden
  state \<open>[1]\<close>; with \<^verbatim>\<open>X\<close> unbound the call raises \<^verbatim>\<open>NameError\<close>.
\<close>

theorem step_computes_from_global_X:
  "step ex_torch ex_env ex_net (Tensor [1]) (Tensor [0]) = Inr (Tensor [7], Tensor [15])
   \<and> (case x_to_h ex_net (Tensor [1]) of Inl e \<Rightarrow> Inl e | Inr a \<Rightarrow>
       (case h_to_h ex_net (Tensor [0]) of Inl e \<Rightarrow> Inl e | Inr b \<Rightarrow>
       (case tensor_add ex_torch a b of Inl e \<Rightarrow> Inl e | Inr s \<Rightarrow>
          mySRN.hidden_activation ex_net s))) = Inr (Tensor [1])
   \<and> step ex_torch Map.empty ex_net (Tensor [1]) (Tensor [0]) = Inl NameError"
  by (simp add: ex_step_bound step_unbound)
     (simp add: ex_net_def ex_torch_def ex_linear_def ex_add_def)

text \<open>
  Claim C2: \<^verbatim>\<open>forward(X, h)\<close> terminates and returns a list of outputs as long as
  \<^verbatim>\<open>X\<close>. On the instance, for the one-element list \<open>[[1]]\<close> the call never returns,
  and with \<^verbatim>\<open>X\<close> unbound at module level it raises \<^verbatim>\<open>NameError\<close> in the first
  iteration: in neither case a list of length 1 is returned.
\<close>

theorem forward_one_element_never_returns:
  "forward ex_torch ex_env ex_net [Tensor [1]] (Tensor [0]) [] = None
   \<and> forward ex_torch Map.empty ex_net [Tensor [1]] (Tensor [0]) [] = Some (Inl NameError, [])"
  by (simp add: forward_def forward_loop_nonempty ex_step_bound step_unbound)

text \<open>
  Claim C8: the result of \<^verbatim>\<open>step\<close> does not depend on its parameter \<^verbatim>\<open>x\<close>: in the
  same global environment, two calls that differ only in \<^verbatim>\<open>x\<close> give the same result
  or the same exception.
\<close>

theorem step_ignores_x: "step fw env self x1 h = step fw env self x2 h"
  by (simp add: step_def)

theorem step_ignores_x_witness:
  "step ex_torch ex_env ex_net (Tensor [1]) (Tensor [0])
     = step ex_torch ex_env ex_net (PyList [Tensor [1], Tensor [2]]) (Tensor [0])"
  using step_ignores_x [of ex_torch ex_env ex_net "Tensor [1]" "Tensor [0]"
      "PyList [Tensor [1], Tensor [2]]"]
  by simp

text \<open>
  Claim C10: for the empty list, \<^verbatim>\<open>forward([], h)\<close> returns the empty list and
  \<^verbatim>\<open>step\<close> is not invoked: the result is the same for every instance and every
  global environment, also one in which any call of \<^verbatim>\<open>step\<close> would raise, and
  nothing is printed. For a non-empty list the loop condition stays true, so the call
  never returns normally: it raises what the first call of \<^verbatim>\<open>step\<close> raises, and runs
  forever when that call succeeds.
\<close>

theorem forward_returns_only_for_empty_list:
  "forward fw env self [] h out = Some (Inr (PyList []), out)
   \<and> (X \<noteq> [] \<longrightarrow>
        forward fw env self X h out =
          (case step fw env self (PyList X) h of
             Inl e \<Rightarrow> Some (Inl e, out)
           | Inr p \<Rightarrow> None)
        \<and> (\<forall>y out'. forward fw env self X h out \<noteq> Some (Inr y, out')))"
  by (auto simp add: forward_def forward_loop_empty forward_loop_nonempty split: sum.splits)

theorem forward_returns_only_for_empty_list_witness:
  "forward ex_torch Map.empty ex_net [] (Tensor [0]) [] = Some (Inr (PyList []), [])
   \<and> [Tensor [1], Tensor [2]] \<noteq> ([] :: int list pyval list)
   \<and> forward ex_torch ex_env ex_net [Tensor [1], Tensor [2]] (Tensor [0]) [] = None"
  using forward_returns_only_for_empty_list
      [of ex_torch Map.empty ex_net "Tensor [0]" "[]" "[]"]
    forward_returns_only_for_empty_list
      [of ex_torch ex_env ex_net "Tensor [0]" "[]" "[Tensor [1], Tensor [2]]"]
  by (simp add: ex_step_bound)

section \<open>Properties of fastSRN\<close>

lemma ex_fast_first_call:
  "fastSRN_forward ex_torch ex_fast (Tensor [1, 2]) h 0 = (Inr (Tensor [3, 7]), 2)"
  by (simp add: fastSRN_forward_def ex_fast_def fastSRN_init_def ex_torch_def ex_rnn_def
      ex_linear_def call_def)

lemma ex_fast_second_call:
  "fastSRN_forward ex_torch ex_fast (Tensor [1, 2]) h 2 = (Inr (Tensor [13, 37]), 4)"
  by (simp add: fastSRN_forward_def ex_fast_def fastSRN_init_def ex_torch_def ex_rnn_def
      ex_linear_def call_def)




text \<open>
  Claim C3: for matching dimensionalities, weights and activations,
  \<^verbatim>\<open>fastSRN.forward\<close> on a stacked input computes timestep by timestep the outputs of
  \<^verbatim>\<open>mySRN.forward\<close> on the list of the per-timestep inputs with a zero initial hidden
  state. On the instance, whose weights match, \<^verbatim>\<open>fastSRN.forward\<close> returns the outputs
  \<open>[3, 7]\<close> for the stacked input \<open>[1, 2]\<close>, while \<^verbatim>\<open>mySRN.forward\<close> on the list
  \<open>[[1], [2]]\<close> with the hidden state \<open>[0]\<close> never returns; a second call of
  \<^verbatim>\<open>fastSRN.forward\<close> draws other weights and returns \<open>[13, 37]\<close>.
\<close>

theorem fastSRN_returns_where_mySRN_loops:
  "fastSRN_forward ex_torch ex_fast (Tensor [1, 2]) PyNone 0 = (Inr (Tensor [3, 7]), 2)
   \<and> forward ex_torch ex_env ex_net [Tensor [1], Tensor [2]] (Tensor [0]) [] = None
   \<and> fastSRN_forward ex_torch ex_fast (Tensor [1, 2]) PyNone 2 = (Inr (Tensor [13, 37]), 4)"
  by (simp add: ex_fast_first_call ex_fast_second_call forward_def forward_loop_nonempty
      ex_step_bound)




section \<open>Properties of the placeholders\<close>

text \<open>
  Claim C5: for a non-empty list of pairs, \<^verbatim>\<open>pad_batch\<close> returns a pair \<open>(X, Y)\<close> of
  rectangular tensors, the sequences padded to the longest length of the batch.
  On a batch of two pairs the code returns something that is no pair of tensors.
\<close>

theorem pad_batch_returns_no_pair: "\<not> is_tensor_pair (fst (pad_batch ex_batch (0 :: nat)))"
  by (simp add: pad_batch_def placeholder_body_def is_tensor_pair_def)

text \<open>
  Claim C5 as amended: \<^verbatim>\<open>pad_batch\<close> is an unfinished placeholder: for every batch it
  returns \<^verbatim>\<open>None\<close>, which is no pair of tensors, and leaves the state as it was; no
  sequence is padded.
\<close>

theorem pad_batch_returns_None:
  "pad_batch batch s = (PyNone, s) \<and> \<not> is_tensor_pair (fst (pad_batch batch s))"
  by (simp add: pad_batch_def placeholder_body_def is_tensor_pair_def)

theorem pad_batch_returns_None_witness:
  "pad_batch ex_batch (0 :: nat) = (PyNone, 0)"
  using pad_batch_returns_None [of ex_batch "0 :: nat"] by simp

text \<open>
  Claim C6: each of the eight placeholders (the three methods of
  \<^verbatim>\<open>UnevenLengthDataset\<close>, \<^verbatim>\<open>pad_batch\<close>, \<^verbatim>\<open>train_batch\<close>, \<^verbatim>\<open>train_epoch\<close>,
  \<^verbatim>\<open>eval_batch\<close>, \<^verbatim>\<open>eval_epoch\<close>) is unfinished: for every input its body is the
  evaluation of \<^verbatim>\<open>NotImplemented\<close> alone, the state is unchanged and the call returns
  \<^verbatim>\<open>None\<close>.
\<close>

theorem placeholders_return_None:
  "UnevenLengthDataset_init (self :: 't pyval) X Y s = placeholder_body s
   \<and> UnevenLengthDataset_len self s = placeholder_body s
   \<and> UnevenLengthDataset_getitem self idx s = placeholder_body s
   \<and> pad_batch (batch :: 't pyval) s = placeholder_body s
   \<and> train_batch (network :: 't pyval) X_batch Y_batch loss_fn optimizer s = placeholder_body s
   \<and> train_epoch network dataloader loss_fn optimizer dev s = placeholder_body s
   \<and> eval_batch network X_batch Y_batch loss_fn s = placeholder_body s
   \<and> eval_epoch network dataloader loss_fn dev s = placeholder_body s
   \<and> placeholder_body s = (PyNone :: 't pyval, s)"
  by (simp add: UnevenLengthDataset_init_def UnevenLengthDataset_len_def
      UnevenLengthDataset_getitem_def pad_batch_def train_batch_def train_epoch_def
      eval_batch_def eval_epoch_def placeholder_body_def)

theorem placeholders_return_None_witness:
  "UnevenLengthDataset_len (PyNone :: int list pyval) (0 :: nat) = (PyNone, 0)
   \<and> train_epoch PyNone ex_batch PyNone PyNone (PyStr ''cpu'') (0 :: nat) = (PyNone, 0)"
  using placeholders_return_None
      [where self = "PyNone :: int list pyval" and s = "0 :: nat" and dataloader = ex_batch
         and network = PyNone and loss_fn = PyNone and optimizer = PyNone
         and dev = "PyStr ''cpu''" and X = PyNone and Y = PyNone and idx = "PyInt 0"
         and batch = ex_batch and X_batch = PyNone and Y_batch = PyNone]
  by simp

section \<open>Properties of accuracy\<close>

subsection \<open>Positions and row-major elements\<close>



lemma positions_enumerate:
  "distinct (positions t) \<and> set (positions t) = {(r, c). r < shape0 t \<and> c < shape1 t}"
  by (auto simp add: positions_def distinct_product)


subsection \<open>The float32 sum of a count\<close>

lemma f32_ulp_small: "m < 2 ^ 24 \<Longrightarrow> f32_ulp m = 1"
  by (subst f32_ulp.simps) simp

lemma f32_ulp_2_24: "f32_ulp 16777216 = 2"
  by (subst f32_ulp.simps) (simp add: f32_ulp_small)

lemma f32_round_exact:
  assumes "0 \<le> k" and "k \<le> 2 ^ 24"
  shows "f32_round k = k"
proof (cases "k = 2 ^ 24")
  case True
  then show ?thesis
    by (simp add: f32_round_def f32_ulp_2_24)
next
  case False
  with assms have "nat \<bar>k\<bar> < 2 ^ 24" by simp
  then have "f32_ulp (nat \<bar>k\<bar>) = 1" by (rule f32_ulp_small)
  with assms show ?thesis by (cases "k = 0") (simp_all add: f32_round_def)
qed


subsection \<open>What the masked assignments leave\<close>




lemma ex_accuracy1: "accuracy ex_pred ex_truth 0 = Inr (4, 3)"
  by (simp add: accuracy_def ex_pred_def ex_truth_def broadcastable_def int64_def ones_def
      masked_assign_def ne_mask_def eq_scalar_mask_def masked_select_def f32_sum_def
      f32_round_exact eval_nat_numeral)

lemma ex_accuracy2: "accuracy ex_pred2 ex_truth2 0 = Inr (3, 2)"
  by (simp add: accuracy_def ex_pred2_def ex_truth2_def broadcastable_def int64_def ones_def
      masked_assign_def ne_mask_def eq_scalar_mask_def masked_select_def f32_sum_def
      f32_round_exact eval_nat_numeral)

subsection \<open>One row of ones\<close>




subsection \<open>The claim about accuracy\<close>




section \<open>Properties of the accuracy measured over a dataloader\<close>

text \<open>
  When every batch goes through the loop body without an exception, the loop ends with
  the running sums increased by the counts of all batches.
\<close>

lemma measure_loop_sums:
  assumes "list_all2 (\<lambda>(x_batch, y_batch) (t, c).
             \<exists>xd pred am yd. x_to ops x_batch dev = Inr xd \<and> network xd = Inr pred
               \<and> argmax_last ops pred = Inr am \<and> y_to ops y_batch dev = Inr yd
               \<and> accuracy am yd 0 = Inr (t, c)) dataloader counts"
  shows "measure_loop ops network dev dataloader correct tot
           = Inr (correct + sum_list (map snd counts), tot + sum_list (map fst counts))"
  using assms
proof (induction dataloader counts arbitrary: correct tot rule: list_all2_induct)
  case Nil
  show ?case by simp
next
  case (Cons b bs k ks)
  obtain x_batch y_batch where b: "b = (x_batch, y_batch)" by (cases b)
  obtain t c where k: "k = (t, c)" by (cases k)
  from Cons.hyps(1) b k obtain xd pred am yd where
    "x_to ops x_batch dev = Inr xd" "network xd = Inr pred" "argmax_last ops pred = Inr am"
    "y_to ops y_batch dev = Inr yd" "accuracy am yd 0 = Inr (t, c)"
    by auto
  then show ?case
    using Cons.IH[of "correct + c" "tot + t"] b k by (simp add: add.assoc)
qed

lemma ex_batches:
  "list_all2 (\<lambda>(x_batch, y_batch) (t, c).
      \<exists>xd pred am yd. x_to ex_ops x_batch ''cpu'' = Inr xd \<and> Inr xd = Inr pred
        \<and> argmax_last ex_ops pred = Inr am \<and> y_to ex_ops y_batch ''cpu'' = Inr yd
        \<and> accuracy am yd 0 = Inr (t, c))
     [(ex_pred, ex_truth), (ex_pred2, ex_truth2)] [(4, 3), (3, 2)]"
  by (simp add: ex_ops_def ex_accuracy1 ex_accuracy2)

text \<open>
  Claim C7: for every network, dataloader and device, \<^verbatim>\<open>measure_accuracy\<close> returns the
  sum over the batches of the correct counts divided by the sum of the total counts.
  For the dataloader without batches the code raises \<^verbatim>\<open>ZeroDivisionError\<close> and
  returns nothing.
\<close>

theorem measure_accuracy_empty_dataloader:
  "measure_accuracy ex_ops Inr [] ''cpu'' = Inl ZeroDivisionError"
  by (simp add: measure_accuracy_def)

text \<open>
  Claim C7 as amended: when each batch passes the loop body without an exception
  (\<^verbatim>\<open>counts\<close> lists, batch by batch, the pair that \<^verbatim>\<open>accuracy\<close> returns for the
  argmax over the last dimension of the network's output and the true labels, with
  ignore index 0) and the sum of the total counts is not zero, \<^verbatim>\<open>measure_accuracy\<close>
  returns the sum of the correct counts divided by the sum of the total counts, the
  micro-average; when the sum of the total counts is zero it raises
  \<^verbatim>\<open>ZeroDivisionError\<close>. (The quotient is the exact fraction here and the nearest
  floating-point number in the code.)
\<close>

theorem measure_accuracy_micro_average:
  assumes "list_all2 (\<lambda>(x_batch, y_batch) (t, c).
             \<exists>xd pred am yd. x_to ops x_batch dev = Inr xd \<and> network xd = Inr pred
               \<and> argmax_last ops pred = Inr am \<and> y_to ops y_batch dev = Inr yd
               \<and> accuracy am yd 0 = Inr (t, c)) dataloader counts"
  shows "measure_accuracy ops network dataloader dev =
           (if sum_list (map fst counts) = 0 then Inl ZeroDivisionError
            else Inr (of_int (sum_list (map snd counts)) / of_int (sum_list (map fst counts))))"
  by (simp add: measure_accuracy_def measure_loop_sums[OF assms])

text \<open>
  On two batches with the counts \<open>(4, 3)\<close> and \<open>(3, 2)\<close> the result is \<open>5 / 7\<close>, and
  not the mean \<open>17 / 24\<close> of the two accuracies \<open>3 / 4\<close> and \<open>2 / 3\<close>.
\<close>

theorem measure_accuracy_micro_average_witness:
  "measure_accuracy ex_ops Inr [(ex_pred, ex_truth), (ex_pred2, ex_truth2)] ''cpu''
     = Inr (5 / 7)
   \<and> (5 / 7 :: rat) \<noteq> (3 / 4 + 2 / 3) / 2"
  using measure_accuracy_micro_average [OF ex_batches] by simp

end
